theory Spec2Isabelle
  imports
    Main
    "HOL-Library.Multiset"
    "HOL-Library.Char_ord"
    "HOL-Library.List_Lexorder"
    "HOL-Library.Product_Lexorder"
begin

section \<open>VEX generation for package configurations (pkg/vex/vex.go)\<close>

text \<open>
  The development embeds the functions of \<^verbatim>\<open>pkg/vex/vex.go\<close>. The file calls into
  four libraries whose code is not part of the repository (the VEX document model and its
  sort and merge routines, the YAML serialiser, SHA-256 and the package-URL parser). Each of
  these calls is a function parameter of the definition that makes the call, named after
  the callee.

  A Go \<^verbatim>\<open>map\<close> is an association list: the list order is the order in which one
  \<^verbatim>\<open>range\<close> loop happens to visit the entries, which Go leaves unspecified. Results
  are stated for every such order. Where a result needs the keys to be different, as they are
  in a Go map, it says so with \<open>distinct (map fst m)\<close>.

  A Go string is a sequence of bytes, and so is a \<^typ>\<open>string\<close> here. A
  \<^verbatim>\<open>time.Time\<close> is an instant on the integer line.

  The pointers that the functions receive (to a configuration, to an SBOM) are taken to be
  non-nil, so a configuration and an SBOM are records.
\<close>

subsection \<open>Errors\<close>

text \<open>
  \<^verbatim>\<open>fmt.Errorf("context: %w", err)\<close> wraps an error of a callee; \<open>Error\<close> is an
  error that a library call produced.
\<close>

datatype error = Error string | Wrapped string error

subsection \<open>Data model\<close>

type_synonym Time = int

text \<open>\<^verbatim>\<open>vex.Status\<close> is a string type with four named constants.\<close>

type_synonym Status = string

definition StatusNotAffected :: Status where
  "StatusNotAffected = ''not_affected''"

definition StatusAffected :: Status where
  "StatusAffected = ''affected''"

definition StatusFixed :: Status where
  "StatusFixed = ''fixed''"

definition StatusUnderInvestigation :: Status where
  "StatusUnderInvestigation = ''under_investigation''"

text \<open>
  \<^verbatim>\<open>vex.Statement\<close>, with the fields that vex.go assigns. A field that a composite
  literal leaves out has Go's zero value: the empty string, and \<open>None\<close> for the
  \<^verbatim>\<open>*time.Time\<close> pointer.
\<close>

record Statement =
  Vulnerability :: string
  Status :: Status
  Justification :: string
  ActionStatement :: string
  ImpactStatement :: string
  Products :: "string list"
  Timestamp :: "Time option"

text \<open>\<^verbatim>\<open>build.AdvisoryContent\<close>: one advisory record of a package.\<close>

record AdvisoryContent =
  AC_Timestamp :: Time
  AC_Status :: Status
  AC_Justification :: string
  AC_ImpactStatement :: string
  AC_ActionStatement :: string
  AC_FixedVersion :: string

text \<open>
  \<^verbatim>\<open>build.Secfixes\<close> is \<^verbatim>\<open>map[string][]string\<close> (package version to
  vulnerability IDs), \<^verbatim>\<open>build.Advisories\<close> is
  \<^verbatim>\<open>map[string][]AdvisoryContent\<close> (vulnerability ID to records).
\<close>

type_synonym Secfixes = "(string \<times> string list) list"

type_synonym Advisories = "(string \<times> AdvisoryContent list) list"

text \<open>
  \<^verbatim>\<open>build.Configuration\<close>: vex.go reads these two fields; everything else of a
  configuration reaches it through \<^verbatim>\<open>PackageURLs\<close> and \<^verbatim>\<open>yaml.Marshal\<close>
  only, which are parameters below.
\<close>

record Configuration =
  PackageName :: string
  PackageVersion :: string
  Secfixes :: Secfixes
  Advisories :: Advisories

record Config =
  Distro :: string
  Author :: string
  AuthorRole :: string

subsection \<open>Statements from secfixes\<close>

definition determineStatus :: "string \<Rightarrow> Status" where
  "determineStatus packageVersion =
     (if packageVersion = ''0'' then StatusNotAffected else StatusFixed)"

definition statementFromSecfixesItem :: "string \<Rightarrow> string \<Rightarrow> string list \<Rightarrow> Statement" where
  "statementFromSecfixesItem pkgVersion vulnerability purls =
     (let status = determineStatus pkgVersion
      in \<lparr>Vulnerability = vulnerability,
          Status = status,
          Justification = [],
          ActionStatement = [],
          ImpactStatement = [],
          Products = purls,
          Timestamp = None\<rparr>)"

text \<open>The inner loop of \<^verbatim>\<open>statementsFromSecfixes\<close>, over the vulnerabilities of one version.\<close>

fun secfixesVulnerabilitiesLoop ::
  "string \<Rightarrow> string list \<Rightarrow> string list \<Rightarrow> Statement list \<Rightarrow> Statement list" where
  "secfixesVulnerabilitiesLoop packageVersion [] purls stmts = stmts"
| "secfixesVulnerabilitiesLoop packageVersion (v # vs) purls stmts =
     secfixesVulnerabilitiesLoop packageVersion vs purls
       (stmts @ [statementFromSecfixesItem packageVersion v purls])"

text \<open>The outer loop, over the entries of the map.\<close>

fun secfixesLoop :: "Secfixes \<Rightarrow> string list \<Rightarrow> Statement list \<Rightarrow> Statement list" where
  "secfixesLoop [] purls stmts = stmts"
| "secfixesLoop ((packageVersion, vulnerabilities) # rest) purls stmts =
     secfixesLoop rest purls
       (secfixesVulnerabilitiesLoop packageVersion vulnerabilities purls stmts)"

definition statementsFromSecfixes :: "Secfixes \<Rightarrow> string list \<Rightarrow> Statement list" where
  "statementsFromSecfixes secfixes purls = secfixesLoop secfixes purls []"

subsection \<open>Statements from advisories\<close>

text \<open>
  \<^verbatim>\<open>Timestamp: &content.Timestamp\<close> is the address of a field, so the pointer is
  never nil.
\<close>

definition statementFromAdvisoryContent ::
  "AdvisoryContent \<Rightarrow> string \<Rightarrow> string list \<Rightarrow> Statement" where
  "statementFromAdvisoryContent content vulnerability purls =
     \<lparr>Vulnerability = vulnerability,
      Status = AC_Status content,
      Justification = AC_Justification content,
      ActionStatement = AC_ActionStatement content,
      ImpactStatement = AC_ImpactStatement content,
      Products = purls,
      Timestamp = Some (AC_Timestamp content)\<rparr>"

fun advisoryEntriesLoop ::
  "string \<Rightarrow> AdvisoryContent list \<Rightarrow> string list \<Rightarrow> Statement list \<Rightarrow> Statement list" where
  "advisoryEntriesLoop v [] purls stmts = stmts"
| "advisoryEntriesLoop v (entry # entries) purls stmts =
     advisoryEntriesLoop v entries purls
       (stmts @ [statementFromAdvisoryContent entry v purls])"

fun advisoriesLoop :: "Advisories \<Rightarrow> string list \<Rightarrow> Statement list \<Rightarrow> Statement list" where
  "advisoriesLoop [] purls stmts = stmts"
| "advisoriesLoop ((v, entries) # rest) purls stmts =
     advisoriesLoop rest purls (advisoryEntriesLoop v entries purls stmts)"

definition statementsFromAdvisories :: "Advisories \<Rightarrow> string list \<Rightarrow> Statement list" where
  "statementsFromAdvisories advisories purls = advisoriesLoop advisories purls []"

subsection \<open>Reconciling the two sources\<close>

text \<open>
  The first loop of \<^verbatim>\<open>statementsFromConfiguration\<close> fills the set
  \<^verbatim>\<open>notAffectedVulns\<close> (a \<^verbatim>\<open>map[string]struct{}\<close>).
\<close>

fun notAffectedVulnsLoop :: "Statement list \<Rightarrow> string set \<Rightarrow> string set" where
  "notAffectedVulnsLoop [] notAffectedVulns = notAffectedVulns"
| "notAffectedVulnsLoop (s # ss) notAffectedVulns =
     notAffectedVulnsLoop ss
       (if Status s = StatusNotAffected
        then insert (Vulnerability s) notAffectedVulns
        else notAffectedVulns)"

text \<open>The second loop keeps the secfixes statements whose vulnerability is not in the set.\<close>

fun unseenSecfixesLoop :: "Statement list \<Rightarrow> string set \<Rightarrow> Statement list \<Rightarrow> Statement list" where
  "unseenSecfixesLoop [] notAffectedVulns statements = statements"
| "unseenSecfixesLoop (s # ss) notAffectedVulns statements =
     unseenSecfixesLoop ss notAffectedVulns
       (if Vulnerability s \<notin> notAffectedVulns then statements @ [s] else statements)"

text \<open>
  \<open>SortStatements\<close> stands for \<^verbatim>\<open>vex.SortStatements\<close> of the VEX library, which
  sorts the slice in place; here it returns the sorted list.
\<close>

definition statementsFromConfiguration ::
  "(Statement list \<Rightarrow> Time \<Rightarrow> Statement list) \<Rightarrow>
   Configuration \<Rightarrow> Time \<Rightarrow> string list \<Rightarrow> Statement list" where
  "statementsFromConfiguration SortStatements cfg documentTimestamp purls =
     (let secfixesStatements = statementsFromSecfixes (Secfixes cfg) purls;
          advisoriesStatements = statementsFromAdvisories (Advisories cfg) purls;
          notAffectedVulns = notAffectedVulnsLoop advisoriesStatements {};
          statements = unseenSecfixesLoop secfixesStatements notAffectedVulns [];
          statements = statements @ advisoriesStatements
      in SortStatements statements documentTimestamp)"

text \<open>
  What the results below require of the sort routine: the sorted slice holds the statements
  it was given, each as often as before.
\<close>

definition sortsInPlace :: "(Statement list \<Rightarrow> Time \<Rightarrow> Statement list) \<Rightarrow> bool" where
  "sortsInPlace SortStatements =
     (\<forall>stmts documentTimestamp. mset (SortStatements stmts documentTimestamp) = mset stmts)"

text \<open>
  One sort routine of that kind, used to run the definitions on concrete packages: a stable
  insertion sort by vulnerability ID, then by timestamp, where a statement without a
  timestamp takes the document's.
\<close>

definition effectiveTimestamp :: "Time \<Rightarrow> Statement \<Rightarrow> Time" where
  "effectiveTimestamp documentTimestamp s =
     (case Timestamp s of None \<Rightarrow> documentTimestamp | Some t \<Rightarrow> t)"

definition sortByVulnerabilityAndTime :: "Statement list \<Rightarrow> Time \<Rightarrow> Statement list" where
  "sortByVulnerabilityAndTime stmts documentTimestamp =
     sort_key (\<lambda>s. (Vulnerability s, effectiveTimestamp documentTimestamp s)) stmts"

subsection \<open>The document identifier\<close>

text \<open>
  \<^verbatim>\<open>fmt.Sprintf("%x", b)\<close> on a byte slice: two lowercase hexadecimal digits for
  each byte, the high half first.
\<close>

definition hexDigit :: "nat \<Rightarrow> char" where
  "hexDigit n = ''0123456789abcdef'' ! (n mod 16)"

definition hexByte :: "char \<Rightarrow> string" where
  "hexByte b = [hexDigit (of_char b div 16), hexDigit (of_char b mod 16)]"

definition Sprintf_x :: "string \<Rightarrow> string" where
  "Sprintf_x b = concat (map hexByte b)"

text \<open>\<^verbatim>\<open>strings.Join\<close>: the separator stands between neighbours only.\<close>

fun strings_Join :: "string list \<Rightarrow> string \<Rightarrow> string" where
  "strings_Join [] sep = []"
| "strings_Join [a] sep = a"
| "strings_Join (a # b # rest) sep = a @ sep @ strings_Join (b # rest) sep"

text \<open>
  \<^verbatim>\<open>sort.Strings\<close> sorts in increasing order of Go's string comparison, which
  compares byte by byte and puts a proper prefix first. That is the order of
  \<^typ>\<open>string\<close> here, and equal strings cannot be told apart, so the result is the one
  sorted arrangement of the slice.
\<close>

definition sort_Strings :: "string list \<Rightarrow> string list" where
  "sort_Strings hashes = sort hashes"

text \<open>
  The loop of \<^verbatim>\<open>generateDocumentID\<close>. The parameters are the library calls:
  \<open>yaml_Marshal c\<close> is the result of \<^verbatim>\<open>yaml.Marshal(c)\<close>; for a fresh hash
  \<^verbatim>\<open>h := sha256.New()\<close>, \<open>sha256_Write data\<close> is the error that
  \<^verbatim>\<open>h.Write(data)\<close> returns (\<open>None\<close> for nil) and \<open>sha256_Sum data\<close> is
  \<^verbatim>\<open>h.Sum(nil)\<close> after that write, the digest of \<open>data\<close>.
\<close>

fun configHashesLoop ::
  "('c \<Rightarrow> error + string) \<Rightarrow> (string \<Rightarrow> error option) \<Rightarrow> (string \<Rightarrow> string) \<Rightarrow>
   'c list \<Rightarrow> string list \<Rightarrow> error + string list" where
  "configHashesLoop yaml_Marshal sha256_Write sha256_Sum [] hashes = Inr hashes"
| "configHashesLoop yaml_Marshal sha256_Write sha256_Sum (c # configs) hashes =
     (case yaml_Marshal c of
        Inl err \<Rightarrow> Inl (Wrapped ''marshaling melange configuration'' err)
      | Inr data \<Rightarrow>
          (case sha256_Write data of
             Some err \<Rightarrow> Inl (Wrapped ''hashing melange configuration'' err)
           | None \<Rightarrow>
               configHashesLoop yaml_Marshal sha256_Write sha256_Sum configs
                 (hashes @ [Sprintf_x (sha256_Sum data)])))"

definition generateDocumentID ::
  "('c \<Rightarrow> error + string) \<Rightarrow> (string \<Rightarrow> error option) \<Rightarrow> (string \<Rightarrow> string) \<Rightarrow>
   'c list \<Rightarrow> error + string" where
  "generateDocumentID yaml_Marshal sha256_Write sha256_Sum configs =
     (case configHashesLoop yaml_Marshal sha256_Write sha256_Sum configs [] of
        Inl err \<Rightarrow> Inl err
      | Inr hashes \<Rightarrow>
          (let sorted = sort_Strings hashes;
               joined = strings_Join sorted '':''
           in case sha256_Write joined of
                Some err \<Rightarrow> Inl (Wrapped ''hashing config files'' err)
              | None \<Rightarrow> Inr (''vex-'' @ Sprintf_x (sha256_Sum joined))))"

text \<open>
  The identifier as the specification describes it, for a serialiser \<open>yaml\<close> and a digest
  \<open>sha256\<close> that do not fail. Its parts are defined here without the functions above.

  Lowercase hexadecimal: a byte is written as two digits, the sixteens first, where the
  digits up to nine are the characters from \<^verbatim>\<open>0\<close> on and the digits from ten are the
  characters from \<^verbatim>\<open>a\<close> on.
\<close>

definition lowercaseHexDigit :: "nat \<Rightarrow> char" where
  "lowercaseHexDigit d =
     (if d < 10 then char_of (of_char CHR ''0'' + d)
      else char_of (of_char CHR ''a'' + (d - 10)))"

definition lowercaseHex :: "string \<Rightarrow> string" where
  "lowercaseHex bytes =
     concat (map (\<lambda>b. [lowercaseHexDigit (of_char b div 16), lowercaseHexDigit (of_char b mod 16)])
       bytes)"

text \<open>Joining with a delimiter: the first part, then each other part after the delimiter.\<close>

definition joinedWith :: "string \<Rightarrow> string list \<Rightarrow> string" where
  "joinedWith sep parts =
     (case parts of [] \<Rightarrow> [] | first # others \<Rightarrow> first @ concat (map (\<lambda>part. sep @ part) others))"

text \<open>
  Serialise each configuration, take the lowercase hexadecimal digest of each serialisation,
  sort the digests, join them with a colon, take the lowercase hexadecimal digest of the
  joined string and put the tag in front.
\<close>

definition hexDigest :: "(string \<Rightarrow> string) \<Rightarrow> string \<Rightarrow> string" where
  "hexDigest sha256 data = lowercaseHex (sha256 data)"

definition specDocumentID :: "('c \<Rightarrow> string) \<Rightarrow> (string \<Rightarrow> string) \<Rightarrow> 'c list \<Rightarrow> string" where
  "specDocumentID yaml sha256 configs =
     ''vex-'' @ hexDigest sha256
       (joinedWith '':'' (sort (map (\<lambda>c. hexDigest sha256 (yaml c)) configs)))"

text \<open>
  The identifier string that a Go caller receives: \<^verbatim>\<open>generateDocumentID\<close> returns
  the empty string together with an error.
\<close>

definition returnedID :: "error + string \<Rightarrow> string" where
  "returnedID r = (case r of Inl err \<Rightarrow> [] | Inr docID \<Rightarrow> docID)"

subsection \<open>Product identifiers of an SBOM\<close>

record ExternalRef =
  Category :: string
  Locator :: string
  RefType :: string

record Package =
  SPDX_Name :: string
  ExternalRefs :: "ExternalRef list"

record Document =
  Packages :: "Package list"

record PackageURL =
  PURL_Type :: string
  Namespace :: string
  PURL_Name :: string
  PURL_Version :: string
  PURL_Subpath :: string

text \<open>
  The inner loop of \<^verbatim>\<open>extractSBOMPurls\<close>, over the external references of one
  package; \<open>purl_FromString\<close> is \<^verbatim>\<open>purl.FromString\<close>.
\<close>

fun externalRefsLoop ::
  "(string \<Rightarrow> error + PackageURL) \<Rightarrow> Config \<Rightarrow> ExternalRef list \<Rightarrow> PackageURL list \<Rightarrow>
   error + PackageURL list" where
  "externalRefsLoop purl_FromString vexCfg [] purls = Inr purls"
| "externalRefsLoop purl_FromString vexCfg (ref # refs) purls =
     (if RefType ref \<noteq> ''purl'' then externalRefsLoop purl_FromString vexCfg refs purls
      else
        (case purl_FromString (Locator ref) of
           Inl err \<Rightarrow> Inl (Wrapped (''parsing purl: '' @ Locator ref) err)
         | Inr p \<Rightarrow>
             externalRefsLoop purl_FromString vexCfg refs
               (if Namespace p = Distro vexCfg then purls @ [p] else purls)))"

fun packagesLoop ::
  "(string \<Rightarrow> error + PackageURL) \<Rightarrow> Config \<Rightarrow> Package list \<Rightarrow> PackageURL list \<Rightarrow>
   error + PackageURL list" where
  "packagesLoop purl_FromString vexCfg [] purls = Inr purls"
| "packagesLoop purl_FromString vexCfg (pkg # pkgs) purls =
     (case externalRefsLoop purl_FromString vexCfg (ExternalRefs pkg) purls of
        Inl err \<Rightarrow> Inl err
      | Inr purls' \<Rightarrow> packagesLoop purl_FromString vexCfg pkgs purls')"

definition extractSBOMPurls ::
  "(string \<Rightarrow> error + PackageURL) \<Rightarrow> Config \<Rightarrow> Document \<Rightarrow> error + PackageURL list" where
  "extractSBOMPurls purl_FromString vexCfg sbom =
     packagesLoop purl_FromString vexCfg (Packages sbom) []"

text \<open>
  The references of an SBOM in the order the two loops visit them, and those among them
  whose type is \<^verbatim>\<open>purl\<close>.
\<close>

definition sbomRefs :: "Document \<Rightarrow> ExternalRef list" where
  "sbomRefs sbom = concat (map ExternalRefs (Packages sbom))"

definition purlRefs :: "Document \<Rightarrow> ExternalRef list" where
  "purlRefs sbom = filter (\<lambda>ref. RefType ref = ''purl'') (sbomRefs sbom)"

subsection \<open>The merged document\<close>






subsection \<open>Notions of the specification\<close>

text \<open>
  The (version, vulnerability) pairs of a secfixes map and the (vulnerability, record)
  pairs of an advisories map, in the order of the entries.
\<close>

definition secfixesPairs :: "Secfixes \<Rightarrow> (string \<times> string) list" where
  "secfixesPairs secfixes =
     concat (map (\<lambda>(packageVersion, vulnerabilities). map (Pair packageVersion) vulnerabilities) secfixes)"

definition advisoryPairs :: "Advisories \<Rightarrow> (string \<times> AdvisoryContent) list" where
  "advisoryPairs advisories =
     concat (map (\<lambda>(v, entries). map (Pair v) entries) advisories)"

text \<open>
  The vulnerability IDs for which some statement of the given list, the advisory
  statements, has status \<^verbatim>\<open>not_affected\<close>.
\<close>

definition suppressedVulns :: "Statement list \<Rightarrow> string set" where
  "suppressedVulns advisoriesStatements =
     set (map Vulnerability (filter (\<lambda>a. Status a = StatusNotAffected) advisoriesStatements))"

subsection \<open>Example packages\<close>

text \<open>Scenarios A and B of the specification, and a package that mixes the cases.\<close>

definition scenarioPurls :: "string list" where
  "scenarioPurls = [''pkg:apk/wolfi/example@1.0.0-r0?arch=x86_64'']"

definition scenarioA :: Configuration where
  "scenarioA =
     \<lparr>PackageName = ''example'', PackageVersion = ''1.0.0'',
      Secfixes = [(''0'', [''CVE-1'']), (''1.2'', [''CVE-2''])],
      Advisories = []\<rparr>"

definition affectedRecord :: AdvisoryContent where
  "affectedRecord =
     \<lparr>AC_Timestamp = 5, AC_Status = StatusAffected, AC_Justification = [],
      AC_ImpactStatement = [], AC_ActionStatement = ''upgrade'', AC_FixedVersion = []\<rparr>"

definition notAffectedRecord :: AdvisoryContent where
  "notAffectedRecord =
     \<lparr>AC_Timestamp = 7, AC_Status = StatusNotAffected,
      AC_Justification = ''component_not_present'',
      AC_ImpactStatement = ''not shipped'', AC_ActionStatement = [], AC_FixedVersion = []\<rparr>"

definition scenarioB :: Configuration where
  "scenarioB =
     \<lparr>PackageName = ''sample'', PackageVersion = ''2.1.0'',
      Secfixes = [(''0'', [''CVE-1''])],
      Advisories = [(''CVE-1'', [affectedRecord])]\<rparr>"

definition mixedPackage :: Configuration where
  "mixedPackage =
     \<lparr>PackageName = ''mixed'', PackageVersion = ''0.3.1'',
      Secfixes = [(''0'', [''CVE-1'']), (''1.2'', [''CVE-2'', ''CVE-3''])],
      Advisories = [(''CVE-1'', [affectedRecord]), (''CVE-3'', [notAffectedRecord, affectedRecord])]\<rparr>"

subsection \<open>Example library functions\<close>

text \<open>
  Stand-ins for the serialiser and the hash, small enough to compute with: a serialiser that
  rejects a configuration without a package name, a hash whose writes succeed and whose
  digest is the length of the data as one byte.
\<close>

definition exampleMarshal :: "Configuration \<Rightarrow> error + string" where
  "exampleMarshal c =
     (if PackageName c = [] then Inl (Error ''cannot marshal'')
      else Inr (''package: '' @ PackageName c @ '' '' @ PackageVersion c))"

definition exampleWrite :: "string \<Rightarrow> error option" where
  "exampleWrite data = None"

definition exampleSum :: "string \<Rightarrow> string" where
  "exampleSum data = [char_of (length data)]"

text \<open>
  A second digest, of two bytes: the length of the data plus 160, and the second byte of the
  data when there is one. It depends on the order of the data and has hexadecimal digits
  above nine.
\<close>

definition exampleDigest :: "string \<Rightarrow> string" where
  "exampleDigest data = char_of (length data + 160) # take 1 (drop 1 data)"

text \<open>
  A configuration of the tool, a parser that knows two package URLs, and two SBOMs: one
  whose references all parse, one with a reference that does not.
\<close>

definition exampleConfig :: Config where
  "exampleConfig = \<lparr>Distro = ''wolfi'', Author = ''wolfictl'', AuthorRole = ''automation''\<rparr>"

definition curlPurl :: PackageURL where
  "curlPurl =
     \<lparr>PURL_Type = ''apk'', Namespace = ''wolfi'', PURL_Name = ''curl'',
      PURL_Version = ''8.1.2-r0'', PURL_Subpath = []\<rparr>"

definition muslPurl :: PackageURL where
  "muslPurl =
     \<lparr>PURL_Type = ''apk'', Namespace = ''alpine'', PURL_Name = ''musl'',
      PURL_Version = ''1.2.4-r0'', PURL_Subpath = []\<rparr>"

definition exampleFromString :: "string \<Rightarrow> error + PackageURL" where
  "exampleFromString locator =
     (if locator = ''pkg:apk/wolfi/curl@8.1.2-r0'' then Inr curlPurl
      else if locator = ''pkg:apk/alpine/musl@1.2.4-r0'' then Inr muslPurl
      else Inl (Error ''not a purl''))"

definition cpeRef :: ExternalRef where
  "cpeRef = \<lparr>Category = ''SECURITY'', Locator = ''cpe:2.3:a:curl:curl:8.1.2'', RefType = ''cpe23Type''\<rparr>"

definition curlRef :: ExternalRef where
  "curlRef = \<lparr>Category = ''PACKAGE_MANAGER'', Locator = ''pkg:apk/wolfi/curl@8.1.2-r0'', RefType = ''purl''\<rparr>"

definition muslRef :: ExternalRef where
  "muslRef = \<lparr>Category = ''PACKAGE_MANAGER'', Locator = ''pkg:apk/alpine/musl@1.2.4-r0'', RefType = ''purl''\<rparr>"

definition brokenRef :: ExternalRef where
  "brokenRef = \<lparr>Category = ''PACKAGE_MANAGER'', Locator = ''zlib-1.3'', RefType = ''purl''\<rparr>"

definition exampleSBOM :: Document where
  "exampleSBOM =
     \<lparr>Packages =
        [\<lparr>SPDX_Name = ''curl'', ExternalRefs = [cpeRef, curlRef]\<rparr>,
         \<lparr>SPDX_Name = ''musl'', ExternalRefs = [muslRef]\<rparr>]\<rparr>"

definition brokenSBOM :: Document where
  "brokenSBOM =
     \<lparr>Packages =
        [\<lparr>SPDX_Name = ''curl'', ExternalRefs = [cpeRef, curlRef]\<rparr>,
         \<lparr>SPDX_Name = ''zlib'', ExternalRefs = [brokenRef]\<rparr>]\<rparr>"





section \<open>Properties of the loops\<close>

lemma secfixesVulnerabilitiesLoop_append:
  "secfixesVulnerabilitiesLoop ver vs purls stmts =
     stmts @ map (\<lambda>v. statementFromSecfixesItem ver v purls) vs"
  by (induction vs arbitrary: stmts) simp_all

lemma secfixesLoop_append:
  "secfixesLoop secfixes purls stmts =
     stmts @ map (\<lambda>(ver, v). statementFromSecfixesItem ver v purls) (secfixesPairs secfixes)"
proof (induction secfixes arbitrary: stmts)
  case Nil
  show ?case by (simp add: secfixesPairs_def)
next
  case (Cons entry rest)
  obtain ver vs where entry: "entry = (ver, vs)" by (cases entry)
  show ?case
    using Cons.IH
    by (simp add: entry secfixesVulnerabilitiesLoop_append secfixesPairs_def comp_def)
qed

lemma statementsFromSecfixes_map:
  "statementsFromSecfixes secfixes purls =
     map (\<lambda>(ver, v). statementFromSecfixesItem ver v purls) (secfixesPairs secfixes)"
  by (simp add: statementsFromSecfixes_def secfixesLoop_append)

lemma advisoryEntriesLoop_append:
  "advisoryEntriesLoop v entries purls stmts =
     stmts @ map (\<lambda>entry. statementFromAdvisoryContent entry v purls) entries"
  by (induction entries arbitrary: stmts) simp_all

lemma advisoriesLoop_append:
  "advisoriesLoop advisories purls stmts =
     stmts @ map (\<lambda>(v, entry). statementFromAdvisoryContent entry v purls) (advisoryPairs advisories)"
proof (induction advisories arbitrary: stmts)
  case Nil
  show ?case by (simp add: advisoryPairs_def)
next
  case (Cons entry rest)
  obtain v entries where entry: "entry = (v, entries)" by (cases entry)
  show ?case
    using Cons.IH
    by (simp add: entry advisoryEntriesLoop_append advisoryPairs_def comp_def)
qed

lemma statementsFromAdvisories_map:
  "statementsFromAdvisories advisories purls =
     map (\<lambda>(v, entry). statementFromAdvisoryContent entry v purls) (advisoryPairs advisories)"
  by (simp add: statementsFromAdvisories_def advisoriesLoop_append)

lemma notAffectedVulnsLoop_eq:
  "notAffectedVulnsLoop stmts seen = seen \<union> suppressedVulns stmts"
  by (induction stmts arbitrary: seen) (auto simp: suppressedVulns_def)

lemma unseenSecfixesLoop_eq:
  "unseenSecfixesLoop stmts seen kept = kept @ filter (\<lambda>s. Vulnerability s \<notin> seen) stmts"
  by (induction stmts arbitrary: kept) simp_all

lemma statementsFromConfiguration_mset:
  assumes "sortsInPlace SortStatements"
  shows "mset (statementsFromConfiguration SortStatements cfg documentTimestamp purls) =
     mset (filter (\<lambda>s. Vulnerability s \<notin>
               suppressedVulns (statementsFromAdvisories (Advisories cfg) purls))
             (statementsFromSecfixes (Secfixes cfg) purls)) +
     mset (statementsFromAdvisories (Advisories cfg) purls)"
  using assms
  by (simp add: statementsFromConfiguration_def sortsInPlace_def Let_def
      notAffectedVulnsLoop_eq unseenSecfixesLoop_eq)

lemma sortByVulnerabilityAndTime_sortsInPlace: "sortsInPlace sortByVulnerabilityAndTime"
  by (simp add: sortsInPlace_def sortByVulnerabilityAndTime_def)

lemma Status_constants_distinct:
  "StatusNotAffected \<noteq> StatusFixed" "StatusNotAffected \<noteq> StatusAffected"
  by (simp_all add: StatusNotAffected_def StatusFixed_def StatusAffected_def)

lemma filter_concat_key:
  assumes "distinct (map fst m)" and "(k, xs) \<in> set m"
  shows "length (filter (\<lambda>p. fst p = k) (concat (map (\<lambda>(k', ys). map (Pair k') ys) m))) = length xs"
  using assms
proof (induction m)
  case Nil
  then show ?case by simp
next
  case (Cons entry rest)
  obtain k' ys where entry: "entry = (k', ys)" by (cases entry)
  have none: "filter (\<lambda>p. fst p = k) (concat (map (\<lambda>(k', ys). map (Pair k') ys) rest)) = []"
    if "k \<notin> fst ` set rest"
    using that by (force simp: filter_empty_conv)
  show ?case
  proof (cases "k' = k")
    case True
    with Cons.prems entry have "ys = xs" and "k \<notin> fst ` set rest"
      by (auto simp: rev_image_eqI)
    with True entry none show ?thesis by (simp add: comp_def)
  next
    case False
    with Cons.prems entry have "(k, xs) \<in> set rest" and "distinct (map fst rest)"
      by auto
    with Cons.IH False entry show ?thesis by (simp add: comp_def)
  qed
qed

text \<open>The statements of the example packages.\<close>

lemma scenarioB_statements:
  "statementsFromSecfixes (Secfixes scenarioB) purls = [statementFromSecfixesItem ''0'' ''CVE-1'' purls]"
  "statementsFromAdvisories (Advisories scenarioB) purls =
     [statementFromAdvisoryContent affectedRecord ''CVE-1'' purls]"
  by (simp_all add: scenarioB_def statementsFromSecfixes_def statementsFromAdvisories_def)

lemma mixedPackage_statements:
  "statementsFromSecfixes (Secfixes mixedPackage) purls =
     [statementFromSecfixesItem ''0'' ''CVE-1'' purls,
      statementFromSecfixesItem ''1.2'' ''CVE-2'' purls,
      statementFromSecfixesItem ''1.2'' ''CVE-3'' purls]"
  "statementsFromAdvisories (Advisories mixedPackage) purls =
     [statementFromAdvisoryContent affectedRecord ''CVE-1'' purls,
      statementFromAdvisoryContent notAffectedRecord ''CVE-3'' purls,
      statementFromAdvisoryContent affectedRecord ''CVE-3'' purls]"
  by (simp_all add: mixedPackage_def statementsFromSecfixes_def statementsFromAdvisories_def)

lemma mixedPackage_suppressedVulns:
  "suppressedVulns (statementsFromAdvisories (Advisories mixedPackage) purls) = {''CVE-3''}"
  by (simp add: mixedPackage_statements suppressedVulns_def statementFromAdvisoryContent_def
      affectedRecord_def notAffectedRecord_def StatusAffected_def StatusNotAffected_def)

lemma scenarioB_reconciled:
  "statementsFromConfiguration sortByVulnerabilityAndTime scenarioB 0 scenarioPurls =
     [\<lparr>Vulnerability = ''CVE-1'', Status = ''not_affected'', Justification = [],
       ActionStatement = [], ImpactStatement = [],
       Products = [''pkg:apk/wolfi/example@1.0.0-r0?arch=x86_64''], Timestamp = None\<rparr>,
      \<lparr>Vulnerability = ''CVE-1'', Status = ''affected'', Justification = [],
       ActionStatement = ''upgrade'', ImpactStatement = [],
       Products = [''pkg:apk/wolfi/example@1.0.0-r0?arch=x86_64''], Timestamp = Some 5\<rparr>]"
  by (simp add: statementsFromConfiguration_def scenarioB_statements
      sortByVulnerabilityAndTime_def effectiveTimestamp_def statementFromSecfixesItem_def
      statementFromAdvisoryContent_def determineStatus_def affectedRecord_def scenarioPurls_def
      StatusAffected_def StatusNotAffected_def)

text \<open>The hexadecimal encoding gives two lowercase digits for each byte.\<close>

lemma hexDigit_lowercase: "hexDigit n \<in> set ''0123456789abcdef''"
  unfolding hexDigit_def by (rule nth_mem) simp

lemma Sprintf_x_length: "length (Sprintf_x b) = 2 * length b"
  by (induction b) (simp_all add: Sprintf_x_def hexByte_def)

lemma Sprintf_x_lowercase: "set (Sprintf_x b) \<subseteq> set ''0123456789abcdef''"
proof -
  have "set (hexByte c) \<subseteq> set ''0123456789abcdef''" for c
    using hexDigit_lowercase [of "of_char c div 16"] hexDigit_lowercase [of "of_char c mod 16"]
    by (simp add: hexByte_def)
  then show ?thesis
    unfolding Sprintf_x_def set_concat set_map by blast
qed

text \<open>
  \<^verbatim>\<open>fmt.Sprintf("%x", b)\<close> writes lowercase hexadecimal and \<^verbatim>\<open>strings.Join\<close>
  joins with the delimiter, in the sense of the specification's notions.
\<close>

lemma hexDigit_table:
  "list_all (\<lambda>d. ''0123456789abcdef'' ! d = lowercaseHexDigit d) [0..<16]"
  by code_simp

lemma hexDigit_eq: "hexDigit n = lowercaseHexDigit (n mod 16)"
proof -
  have "n mod 16 \<in> set [0..<16]"
    by simp
  with hexDigit_table have "''0123456789abcdef'' ! (n mod 16) = lowercaseHexDigit (n mod 16)"
    unfolding list_all_iff by blast
  then show ?thesis
    by (simp add: hexDigit_def)
qed

lemma Sprintf_x_eq: "Sprintf_x b = lowercaseHex b"
proof -
  have byte: "hexByte c = [lowercaseHexDigit (of_char c div 16), lowercaseHexDigit (of_char c mod 16)]"
    for c
  proof -
    have "(of_char c :: nat) < 256"
      by simp
    then have "(of_char c :: nat) div 16 < 16"
      by arith
    then show ?thesis
      by (simp add: hexByte_def hexDigit_eq)
  qed
  then have "hexByte = (\<lambda>c. [lowercaseHexDigit (of_char c div 16), lowercaseHexDigit (of_char c mod 16)])"
    by (intro ext)
  then show ?thesis
    by (simp add: Sprintf_x_def lowercaseHex_def)
qed

lemma strings_Join_eq: "strings_Join parts sep = joinedWith sep parts"
  by (induction parts sep rule: strings_Join.induct) (simp_all add: joinedWith_def)

lemma exampleDigest_formula:
  "specDocumentID (\<lambda>c. ''package: '' @ PackageName c @ '' '' @ PackageVersion c)
     exampleDigest [scenarioA, scenarioB] = ''vex-a935''"
  unfolding specDocumentID_def hexDigest_def Sprintf_x_eq [symmetric] strings_Join_eq [symmetric]
  by (simp add: exampleDigest_def scenarioA_def scenarioB_def Sprintf_x_def hexByte_def
      hexDigit_def)

text \<open>The loop of \<^verbatim>\<open>generateDocumentID\<close>: when it succeeds, and with which hashes.\<close>

lemma configHashesLoop_succeeds:
  assumes "\<forall>c \<in> set configs. \<exists>data. yaml_Marshal c = Inr data \<and> sha256_Write data = None"
  shows "configHashesLoop yaml_Marshal sha256_Write sha256_Sum configs hashes =
     Inr (hashes @ map (\<lambda>c. Sprintf_x (sha256_Sum (projr (yaml_Marshal c)))) configs)"
  using assms
proof (induction configs arbitrary: hashes)
  case Nil
  show ?case by simp
next
  case (Cons c configs)
  from Cons.prems obtain data where c: "yaml_Marshal c = Inr data" "sha256_Write data = None"
    by auto
  from Cons.prems have rest:
    "\<forall>c \<in> set configs. \<exists>data. yaml_Marshal c = Inr data \<and> sha256_Write data = None"
    by simp
  show ?case
    by (simp add: c Cons.IH [OF rest])
qed

lemma configHashesLoop_fails:
  assumes "\<exists>c \<in> set configs. \<not> (\<exists>data. yaml_Marshal c = Inr data \<and> sha256_Write data = None)"
  shows "isl (configHashesLoop yaml_Marshal sha256_Write sha256_Sum configs hashes)"
  using assms
proof (induction configs arbitrary: hashes)
  case Nil
  then show ?case by simp
next
  case (Cons c configs)
  show ?case
  proof (cases "yaml_Marshal c")
    case (Inl err)
    then show ?thesis by simp
  next
    case (Inr data)
    show ?thesis
    proof (cases "sha256_Write data")
      case (Some err)
      with Inr show ?thesis by simp
    next
      case None
      with Inr Cons.prems
      have "\<exists>c \<in> set configs. \<not> (\<exists>data. yaml_Marshal c = Inr data \<and> sha256_Write data = None)"
        by auto
      from Cons.IH [OF this] Inr None show ?thesis by simp
    qed
  qed
qed

lemma sort_mset_cong: "mset xs = mset ys \<Longrightarrow> sort xs = sort (ys :: 'a::linorder list)"
  by (rule properties_for_sort) simp_all

lemma example_ids:
  "generateDocumentID exampleMarshal exampleWrite exampleSum [scenarioB, scenarioA] = Inr ''vex-05''"
  "generateDocumentID exampleMarshal exampleWrite exampleSum [scenarioA, scenarioB] = Inr ''vex-05''"
  by (simp_all add: generateDocumentID_def exampleMarshal_def exampleWrite_def exampleSum_def
      scenarioA_def scenarioB_def Sprintf_x_def hexByte_def hexDigit_def sort_Strings_def)

text \<open>The loops of \<^verbatim>\<open>extractSBOMPurls\<close> visit the references of all packages in one sequence.\<close>

lemma externalRefsLoop_append:
  "externalRefsLoop F cfg (refs @ refs') purls =
     (case externalRefsLoop F cfg refs purls of
        Inl err \<Rightarrow> Inl err
      | Inr purls' \<Rightarrow> externalRefsLoop F cfg refs' purls')"
  by (induction refs arbitrary: purls) (simp_all split: sum.splits)

lemma packagesLoop_flat:
  "packagesLoop F cfg pkgs purls = externalRefsLoop F cfg (concat (map ExternalRefs pkgs)) purls"
  by (induction pkgs arbitrary: purls) (simp_all add: externalRefsLoop_append split: sum.splits)

lemma externalRefsLoop_succeeds:
  assumes "\<forall>ref \<in> set refs. RefType ref = ''purl'' \<longrightarrow> \<not> isl (F (Locator ref))"
  shows "externalRefsLoop F cfg refs purls =
     Inr (purls @ filter (\<lambda>p. Namespace p = Distro cfg)
            (map (\<lambda>ref. projr (F (Locator ref))) (filter (\<lambda>ref. RefType ref = ''purl'') refs)))"
  using assms
proof (induction refs arbitrary: purls)
  case Nil
  show ?case by simp
next
  case (Cons ref refs)
  from Cons.prems
  have rest: "\<forall>ref \<in> set refs. RefType ref = ''purl'' \<longrightarrow> \<not> isl (F (Locator ref))"
    by simp
  show ?case
  proof (cases "RefType ref = ''purl''")
    case False
    then show ?thesis by (simp add: Cons.IH [OF rest])
  next
    case True
    with Cons.prems obtain p where p: "F (Locator ref) = Inr p"
      by (cases "F (Locator ref)") auto
    show ?thesis
      by (simp add: True p Cons.IH [OF rest])
  qed
qed

lemma externalRefsLoop_fails:
  assumes "\<exists>ref \<in> set refs. RefType ref = ''purl'' \<and> isl (F (Locator ref))"
  shows "\<exists>ref \<in> set refs. \<exists>err. RefType ref = ''purl'' \<and> F (Locator ref) = Inl err \<and>
     externalRefsLoop F cfg refs purls = Inl (Wrapped (''parsing purl: '' @ Locator ref) err)"
  using assms
proof (induction refs arbitrary: purls)
  case Nil
  then show ?case by simp
next
  case (Cons ref refs)
  show ?case
  proof (cases "RefType ref = ''purl''")
    case False
    with Cons.prems
    have "\<exists>ref \<in> set refs. RefType ref = ''purl'' \<and> isl (F (Locator ref))"
      by auto
    from Cons.IH [OF this, of purls] False show ?thesis
      by auto
  next
    case True
    show ?thesis
    proof (cases "F (Locator ref)")
      case (Inl err)
      with True show ?thesis by simp
    next
      case (Inr p)
      with Cons.prems
      have "\<exists>ref \<in> set refs. RefType ref = ''purl'' \<and> isl (F (Locator ref))"
        by auto
      from Cons.IH [OF this, of "if Namespace p = Distro cfg then purls @ [p] else purls"] True Inr
      show ?thesis
        by auto
    qed
  qed
qed

lemma example_purlRefs:
  "purlRefs exampleSBOM = [curlRef, muslRef]"
  "purlRefs brokenSBOM = [curlRef, brokenRef]"
  by (simp_all add: purlRefs_def sbomRefs_def exampleSBOM_def brokenSBOM_def
      cpeRef_def curlRef_def muslRef_def brokenRef_def)

lemma example_parses:
  "exampleFromString (Locator curlRef) = Inr curlPurl"
  "exampleFromString (Locator muslRef) = Inr muslPurl"
  "exampleFromString (Locator brokenRef) = Inl (Error ''not a purl'')"
  by (simp_all add: exampleFromString_def curlRef_def muslRef_def brokenRef_def)





section \<open>Results\<close>

text \<open>
  C3. For every (version, vulnerability ID) pair of a secfixes map,
  \<^verbatim>\<open>statementsFromSecfixes\<close> emits exactly one statement: the list of statements
  is as long as the list of pairs, and the statement at the position of a pair names the
  pair's vulnerability, has status \<^verbatim>\<open>not_affected\<close> if and only if the version is
  the string \<^verbatim>\<open>"0"\<close> and status \<^verbatim>\<open>fixed\<close> for every other version, and has no
  justification, no action statement, no impact statement and a nil timestamp.
\<close>

theorem statementsFromSecfixes_one_per_pair:
  "length (statementsFromSecfixes secfixes purls) = length (secfixesPairs secfixes) \<and>
   (\<forall>i packageVersion vulnerability.
      i < length (secfixesPairs secfixes) \<and>
      secfixesPairs secfixes ! i = (packageVersion, vulnerability) \<longrightarrow>
      (let s = statementsFromSecfixes secfixes purls ! i
       in Vulnerability s = vulnerability \<and>
          (Status s = StatusNotAffected \<longleftrightarrow> packageVersion = ''0'') \<and>
          (packageVersion \<noteq> ''0'' \<longrightarrow> Status s = StatusFixed) \<and>
          Justification s = [] \<and> ActionStatement s = [] \<and> ImpactStatement s = [] \<and>
          Timestamp s = None \<and> Products s = purls))"
  using Status_constants_distinct(1) [symmetric]
  by (simp add: statementsFromSecfixes_map statementFromSecfixesItem_def determineStatus_def)

theorem statementsFromSecfixes_one_per_pair_witness:
  "secfixesPairs (Secfixes scenarioA) = [(''0'', ''CVE-1''), (''1.2'', ''CVE-2'')] \<and>
   length (statementsFromSecfixes (Secfixes scenarioA) scenarioPurls) = 2 \<and>
   Status (statementsFromSecfixes (Secfixes scenarioA) scenarioPurls ! 0) = StatusNotAffected \<and>
   Timestamp (statementsFromSecfixes (Secfixes scenarioA) scenarioPurls ! 0) = None \<and>
   Vulnerability (statementsFromSecfixes (Secfixes scenarioA) scenarioPurls ! 1) = ''CVE-2'' \<and>
   Status (statementsFromSecfixes (Secfixes scenarioA) scenarioPurls ! 1) = StatusFixed"
proof -
  have pairs: "secfixesPairs (Secfixes scenarioA) = [(''0'', ''CVE-1''), (''1.2'', ''CVE-2'')]"
    by (simp add: secfixesPairs_def scenarioA_def)
  note all = statementsFromSecfixes_one_per_pair [of "Secfixes scenarioA" scenarioPurls]
  from all have len: "length (statementsFromSecfixes (Secfixes scenarioA) scenarioPurls) = 2"
    by (simp add: pairs)
  from all have first:
    "Status (statementsFromSecfixes (Secfixes scenarioA) scenarioPurls ! 0) = StatusNotAffected \<and>
     Timestamp (statementsFromSecfixes (Secfixes scenarioA) scenarioPurls ! 0) = None"
    unfolding pairs Let_def by (elim conjE allE [of _ 0] allE [of _ "''0''"] allE [of _ "''CVE-1''"]) simp
  from all have second:
    "Vulnerability (statementsFromSecfixes (Secfixes scenarioA) scenarioPurls ! 1) = ''CVE-2'' \<and>
     Status (statementsFromSecfixes (Secfixes scenarioA) scenarioPurls ! 1) = StatusFixed"
    unfolding pairs Let_def by (elim conjE allE [of _ 1] allE [of _ "''1.2''"] allE [of _ "''CVE-2''"]) simp
  from pairs len first second show ?thesis by simp
qed

text \<open>
  C6. For every (vulnerability ID, record) pair of an advisories map,
  \<^verbatim>\<open>statementsFromAdvisories\<close> emits exactly one statement, whose vulnerability ID
  is the key and whose status, justification, action statement, impact statement and
  timestamp are those of the record; a vulnerability ID with \<open>n\<close> records yields
  \<open>n\<close> statements.
\<close>

theorem statementsFromAdvisories_one_per_record:
  "length (statementsFromAdvisories advisories purls) = length (advisoryPairs advisories) \<and>
   (\<forall>i v content.
      i < length (advisoryPairs advisories) \<and> advisoryPairs advisories ! i = (v, content) \<longrightarrow>
      (let s = statementsFromAdvisories advisories purls ! i
       in Vulnerability s = v \<and>
          Status s = AC_Status content \<and>
          Justification s = AC_Justification content \<and>
          ActionStatement s = AC_ActionStatement content \<and>
          ImpactStatement s = AC_ImpactStatement content \<and>
          Timestamp s = Some (AC_Timestamp content) \<and> Products s = purls)) \<and>
   (\<forall>v entries.
      distinct (map fst advisories) \<and> (v, entries) \<in> set advisories \<longrightarrow>
      length (filter (\<lambda>s. Vulnerability s = v) (statementsFromAdvisories advisories purls)) =
        length entries)"
proof -
  have count: "length (filter (\<lambda>s. Vulnerability s = v) (statementsFromAdvisories advisories purls)) =
        length entries"
    if "distinct (map fst advisories)" and "(v, entries) \<in> set advisories" for v entries
  proof -
    have "filter (\<lambda>s. Vulnerability s = v) (statementsFromAdvisories advisories purls) =
        map (\<lambda>(v, entry). statementFromAdvisoryContent entry v purls)
          (filter (\<lambda>p. fst p = v) (advisoryPairs advisories))"
      by (simp add: statementsFromAdvisories_map filter_map comp_def case_prod_unfold
          statementFromAdvisoryContent_def)
    then show ?thesis
      using filter_concat_key [OF that] by (simp add: advisoryPairs_def)
  qed
  have fields: "length (statementsFromAdvisories advisories purls) = length (advisoryPairs advisories) \<and>
   (\<forall>i v content.
      i < length (advisoryPairs advisories) \<and> advisoryPairs advisories ! i = (v, content) \<longrightarrow>
      (let s = statementsFromAdvisories advisories purls ! i
       in Vulnerability s = v \<and>
          Status s = AC_Status content \<and>
          Justification s = AC_Justification content \<and>
          ActionStatement s = AC_ActionStatement content \<and>
          ImpactStatement s = AC_ImpactStatement content \<and>
          Timestamp s = Some (AC_Timestamp content) \<and> Products s = purls))"
    by (simp add: statementsFromAdvisories_map statementFromAdvisoryContent_def)
  from fields count show ?thesis by blast
qed

theorem statementsFromAdvisories_one_per_record_witness:
  "distinct (map fst (Advisories mixedPackage)) \<and>
   (''CVE-3'', [notAffectedRecord, affectedRecord]) \<in> set (Advisories mixedPackage) \<and>
   length (filter (\<lambda>s. Vulnerability s = ''CVE-3'')
     (statementsFromAdvisories (Advisories mixedPackage) scenarioPurls)) = 2 \<and>
   advisoryPairs (Advisories mixedPackage) ! 1 = (''CVE-3'', notAffectedRecord) \<and>
   Status (statementsFromAdvisories (Advisories mixedPackage) scenarioPurls ! 1) = StatusNotAffected \<and>
   Timestamp (statementsFromAdvisories (Advisories mixedPackage) scenarioPurls ! 1) = Some 7"
proof -
  have keys: "distinct (map fst (Advisories mixedPackage))"
    by (simp add: mixedPackage_def)
  have entry: "(''CVE-3'', [notAffectedRecord, affectedRecord]) \<in> set (Advisories mixedPackage)"
    by (simp add: mixedPackage_def)
  have pairs: "advisoryPairs (Advisories mixedPackage) =
      [(''CVE-1'', affectedRecord), (''CVE-3'', notAffectedRecord), (''CVE-3'', affectedRecord)]"
    by (simp add: advisoryPairs_def mixedPackage_def)
  note all = statementsFromAdvisories_one_per_record [of "Advisories mixedPackage" scenarioPurls]
  from all keys entry have count:
    "length (filter (\<lambda>s. Vulnerability s = ''CVE-3'')
       (statementsFromAdvisories (Advisories mixedPackage) scenarioPurls)) = 2"
    by fastforce
  from all have second:
    "Status (statementsFromAdvisories (Advisories mixedPackage) scenarioPurls ! 1) = StatusNotAffected \<and>
     Timestamp (statementsFromAdvisories (Advisories mixedPackage) scenarioPurls ! 1) = Some 7"
    unfolding pairs Let_def
    by (elim conjE allE [of _ 1] allE [of _ "''CVE-3''"] allE [of _ notAffectedRecord])
      (simp add: notAffectedRecord_def)
  from keys entry count pairs second show ?thesis by simp
qed

text \<open>
  C2. Let \<open>S\<close> be the set of vulnerability IDs for which at least one advisory
  statement has status \<^verbatim>\<open>not_affected\<close>. For every sort routine that keeps the
  statements it is given, the output of \<^verbatim>\<open>statementsFromConfiguration\<close> contains no
  secfixes statement whose vulnerability ID is in \<open>S\<close>, whatever the status of that
  statement, contains every secfixes statement whose vulnerability ID is not in \<open>S\<close>,
  and contains every advisory statement. Counted with repetitions, the output consists of
  exactly the secfixes statements outside \<open>S\<close> and the advisory statements.
\<close>

theorem statementsFromConfiguration_suppression:
  assumes "sortsInPlace SortStatements"
  shows
   "(let secfixesStatements = statementsFromSecfixes (Secfixes cfg) purls;
         advisoriesStatements = statementsFromAdvisories (Advisories cfg) purls;
         S = suppressedVulns advisoriesStatements;
         reconciled = statementsFromConfiguration SortStatements cfg documentTimestamp purls
     in (\<forall>s \<in> set secfixesStatements. Vulnerability s \<in> S \<longrightarrow> s \<notin> set reconciled) \<and>
        (\<forall>s \<in> set secfixesStatements. Vulnerability s \<notin> S \<longrightarrow> s \<in> set reconciled) \<and>
        (\<forall>a \<in> set advisoriesStatements. a \<in> set reconciled) \<and>
        mset reconciled =
          mset (filter (\<lambda>s. Vulnerability s \<notin> S) secfixesStatements) + mset advisoriesStatements)"
proof -
  let ?sec = "statementsFromSecfixes (Secfixes cfg) purls"
  let ?adv = "statementsFromAdvisories (Advisories cfg) purls"
  let ?S = "suppressedVulns ?adv"
  let ?out = "statementsFromConfiguration SortStatements cfg documentTimestamp purls"
  have m: "mset ?out = mset (filter (\<lambda>s. Vulnerability s \<notin> ?S) ?sec) + mset ?adv"
    by (rule statementsFromConfiguration_mset [OF assms])
  have "set_mset (mset ?out) = set_mset (mset (filter (\<lambda>s. Vulnerability s \<notin> ?S) ?sec) + mset ?adv)"
    by (simp only: m)
  then have s: "set ?out = {s \<in> set ?sec. Vulnerability s \<notin> ?S} \<union> set ?adv"
    by simp
  have nil: "Timestamp s = None" if "s \<in> set ?sec" for s
    using that by (auto simp: statementsFromSecfixes_map statementFromSecfixesItem_def)
  have non_nil: "Timestamp a \<noteq> None" if "a \<in> set ?adv" for a
    using that by (auto simp: statementsFromAdvisories_map statementFromAdvisoryContent_def)
  have apart: "s \<notin> set ?adv" if "s \<in> set ?sec" for s
    using nil [OF that] non_nil [of s] by blast
  have dropped: "\<forall>s \<in> set ?sec. Vulnerability s \<in> ?S \<longrightarrow> s \<notin> set ?out"
    using s apart by blast
  have kept: "\<forall>s \<in> set ?sec. Vulnerability s \<notin> ?S \<longrightarrow> s \<in> set ?out"
    using s by blast
  have retained: "\<forall>a \<in> set ?adv. a \<in> set ?out"
    using s by blast
  from dropped kept retained m show ?thesis
    unfolding Let_def by (intro conjI)
qed

theorem statementsFromConfiguration_suppression_witness:
  "sortsInPlace sortByVulnerabilityAndTime \<and>
   statementFromSecfixesItem ''1.2'' ''CVE-3'' scenarioPurls
     \<in> set (statementsFromSecfixes (Secfixes mixedPackage) scenarioPurls) \<and>
   ''CVE-3'' \<in> suppressedVulns (statementsFromAdvisories (Advisories mixedPackage) scenarioPurls) \<and>
   statementFromSecfixesItem ''1.2'' ''CVE-3'' scenarioPurls
     \<notin> set (statementsFromConfiguration sortByVulnerabilityAndTime mixedPackage 0 scenarioPurls) \<and>
   statementFromSecfixesItem ''0'' ''CVE-1'' scenarioPurls
     \<in> set (statementsFromSecfixes (Secfixes mixedPackage) scenarioPurls) \<and>
   ''CVE-1'' \<notin> suppressedVulns (statementsFromAdvisories (Advisories mixedPackage) scenarioPurls) \<and>
   statementFromSecfixesItem ''0'' ''CVE-1'' scenarioPurls
     \<in> set (statementsFromConfiguration sortByVulnerabilityAndTime mixedPackage 0 scenarioPurls) \<and>
   statementFromAdvisoryContent notAffectedRecord ''CVE-3'' scenarioPurls
     \<in> set (statementsFromConfiguration sortByVulnerabilityAndTime mixedPackage 0 scenarioPurls)"
proof -
  let ?out = "statementsFromConfiguration sortByVulnerabilityAndTime mixedPackage 0 scenarioPurls"
  have sec3: "statementFromSecfixesItem ''1.2'' ''CVE-3'' scenarioPurls
     \<in> set (statementsFromSecfixes (Secfixes mixedPackage) scenarioPurls)"
    and sec1: "statementFromSecfixesItem ''0'' ''CVE-1'' scenarioPurls
     \<in> set (statementsFromSecfixes (Secfixes mixedPackage) scenarioPurls)"
    and adv3: "statementFromAdvisoryContent notAffectedRecord ''CVE-3'' scenarioPurls
     \<in> set (statementsFromAdvisories (Advisories mixedPackage) scenarioPurls)"
    by (simp_all add: mixedPackage_statements)
  have v3: "Vulnerability (statementFromSecfixesItem ''1.2'' ''CVE-3'' scenarioPurls) = ''CVE-3''"
    and v1: "Vulnerability (statementFromSecfixesItem ''0'' ''CVE-1'' scenarioPurls) = ''CVE-1''"
    by (simp_all add: statementFromSecfixesItem_def)
  have in3: "''CVE-3'' \<in> suppressedVulns (statementsFromAdvisories (Advisories mixedPackage) scenarioPurls)"
    and out1: "''CVE-1'' \<notin> suppressedVulns (statementsFromAdvisories (Advisories mixedPackage) scenarioPurls)"
    by (simp_all add: mixedPackage_suppressedVulns)
  note all = statementsFromConfiguration_suppression
    [OF sortByVulnerabilityAndTime_sortsInPlace, of mixedPackage scenarioPurls 0, unfolded Let_def]
  from all sec3 v3 in3 have dropped:
    "statementFromSecfixesItem ''1.2'' ''CVE-3'' scenarioPurls \<notin> set ?out"
    by metis
  from all sec1 v1 out1 have kept:
    "statementFromSecfixesItem ''0'' ''CVE-1'' scenarioPurls \<in> set ?out"
    by metis
  from all adv3 have retained:
    "statementFromAdvisoryContent notAffectedRecord ''CVE-3'' scenarioPurls \<in> set ?out"
    by blast
  from sortByVulnerabilityAndTime_sortsInPlace sec3 in3 dropped sec1 out1 kept retained
  show ?thesis by (intro conjI)
qed

text \<open>
  C7. Every statement of the output of \<^verbatim>\<open>statementsFromConfiguration\<close> has the whole
  list \<open>purls\<close> as its products; when \<open>purls\<close> is not empty, no statement of the
  output has an empty product list.
\<close>

theorem statementsFromConfiguration_products:
  assumes "sortsInPlace SortStatements"
  shows "(\<forall>s \<in> set (statementsFromConfiguration SortStatements cfg documentTimestamp purls).
            Products s = purls) \<and>
         (purls \<noteq> [] \<longrightarrow>
          (\<forall>s \<in> set (statementsFromConfiguration SortStatements cfg documentTimestamp purls).
             Products s \<noteq> []))"
proof -
  let ?sec = "statementsFromSecfixes (Secfixes cfg) purls"
  let ?adv = "statementsFromAdvisories (Advisories cfg) purls"
  let ?out = "statementsFromConfiguration SortStatements cfg documentTimestamp purls"
  have "set_mset (mset ?out) =
      set_mset (mset (filter (\<lambda>s. Vulnerability s \<notin> suppressedVulns ?adv) ?sec) + mset ?adv)"
    by (simp only: statementsFromConfiguration_mset [OF assms])
  then have sub: "set ?out \<subseteq> set ?sec \<union> set ?adv"
    by auto
  have sec: "Products s = purls" if "s \<in> set ?sec" for s
    using that by (auto simp: statementsFromSecfixes_map statementFromSecfixesItem_def)
  have adv: "Products a = purls" if "a \<in> set ?adv" for a
    using that by (auto simp: statementsFromAdvisories_map statementFromAdvisoryContent_def)
  have "\<forall>s \<in> set ?out. Products s = purls"
    using sub sec adv by blast
  then show ?thesis by simp
qed

theorem statementsFromConfiguration_products_witness:
  "sortsInPlace sortByVulnerabilityAndTime \<and> scenarioPurls \<noteq> [] \<and>
   statementFromAdvisoryContent notAffectedRecord ''CVE-3'' scenarioPurls
     \<in> set (statementsFromConfiguration sortByVulnerabilityAndTime mixedPackage 0 scenarioPurls) \<and>
   Products (statementFromAdvisoryContent notAffectedRecord ''CVE-3'' scenarioPurls) =
     [''pkg:apk/wolfi/example@1.0.0-r0?arch=x86_64'']"
proof -
  let ?out = "statementsFromConfiguration sortByVulnerabilityAndTime mixedPackage 0 scenarioPurls"
  let ?s = "statementFromAdvisoryContent notAffectedRecord ''CVE-3'' scenarioPurls"
  have purls: "scenarioPurls \<noteq> []"
    by (simp add: scenarioPurls_def)
  have "?s \<in># mset ?out"
    by (simp add: statementsFromConfiguration_mset [OF sortByVulnerabilityAndTime_sortsInPlace]
        mixedPackage_statements)
  then have member: "?s \<in> set ?out"
    by simp
  from statementsFromConfiguration_products
    [OF sortByVulnerabilityAndTime_sortsInPlace, of mixedPackage 0 scenarioPurls] member
  have "Products ?s = scenarioPurls"
    by blast
  then have products: "Products ?s = [''pkg:apk/wolfi/example@1.0.0-r0?arch=x86_64'']"
    by (simp add: scenarioPurls_def)
  from sortByVulnerabilityAndTime_sortsInPlace purls member products show ?thesis
    by (intro conjI)
qed

text \<open>
  C1, as the specification states it, fails: for scenario B, whose only advisory record for
  CVE-1 has status \<^verbatim>\<open>affected\<close>, the output has two statements for CVE-1, and the
  first one is the secfixes statement with status \<^verbatim>\<open>not_affected\<close>.
\<close>

theorem scenarioB_keeps_legacy_statement:
  "statementsFromConfiguration sortByVulnerabilityAndTime scenarioB 0 scenarioPurls =
     [\<lparr>Vulnerability = ''CVE-1'', Status = ''not_affected'', Justification = [],
       ActionStatement = [], ImpactStatement = [],
       Products = [''pkg:apk/wolfi/example@1.0.0-r0?arch=x86_64''], Timestamp = None\<rparr>,
      \<lparr>Vulnerability = ''CVE-1'', Status = ''affected'', Justification = [],
       ActionStatement = ''upgrade'', ImpactStatement = [],
       Products = [''pkg:apk/wolfi/example@1.0.0-r0?arch=x86_64''], Timestamp = Some 5\<rparr>]"
  by (rule scenarioB_reconciled)

text \<open>
  C1, amended. For a package whose secfixes map is \<^verbatim>\<open>{"0": ["CVE-1"]}\<close> and whose
  advisories map holds one record for CVE-1, with status \<^verbatim>\<open>affected\<close>, the output
  of \<^verbatim>\<open>statementsFromConfiguration\<close> consists of exactly two statements for CVE-1: the
  secfixes statement, with status \<^verbatim>\<open>not_affected\<close> and no timestamp, and the
  advisory statement, with status \<^verbatim>\<open>affected\<close>. The secfixes statement survives
  because no advisory statement for CVE-1 has status \<^verbatim>\<open>not_affected\<close>.
\<close>

theorem scenarioB_two_statements:
  assumes "sortsInPlace SortStatements"
    and "Secfixes cfg = [(''0'', [''CVE-1''])]"
    and "Advisories cfg = [(''CVE-1'', [content])]"
    and "AC_Status content = StatusAffected"
  shows "mset (statementsFromConfiguration SortStatements cfg documentTimestamp purls) =
           {#statementFromSecfixesItem ''0'' ''CVE-1'' purls,
             statementFromAdvisoryContent content ''CVE-1'' purls#} \<and>
         Status (statementFromSecfixesItem ''0'' ''CVE-1'' purls) = StatusNotAffected \<and>
         Timestamp (statementFromSecfixesItem ''0'' ''CVE-1'' purls) = None \<and>
         Status (statementFromAdvisoryContent content ''CVE-1'' purls) = StatusAffected"
proof -
  have sec: "statementsFromSecfixes (Secfixes cfg) purls = [statementFromSecfixesItem ''0'' ''CVE-1'' purls]"
    by (simp add: assms(2) statementsFromSecfixes_def)
  have adv: "statementsFromAdvisories (Advisories cfg) purls =
      [statementFromAdvisoryContent content ''CVE-1'' purls]"
    by (simp add: assms(3) statementsFromAdvisories_def)
  have none: "suppressedVulns [statementFromAdvisoryContent content ''CVE-1'' purls] = {}"
    using Status_constants_distinct(2)
    by (simp add: suppressedVulns_def statementFromAdvisoryContent_def assms(4))
  have "mset (statementsFromConfiguration SortStatements cfg documentTimestamp purls) =
           {#statementFromSecfixesItem ''0'' ''CVE-1'' purls,
             statementFromAdvisoryContent content ''CVE-1'' purls#}"
    by (simp add: statementsFromConfiguration_mset [OF assms(1)] none sec adv)
  then show ?thesis
    by (simp add: statementFromSecfixesItem_def determineStatus_def
        statementFromAdvisoryContent_def assms(4))
qed

theorem scenarioB_two_statements_witness:
  "sortsInPlace sortByVulnerabilityAndTime \<and>
   Secfixes scenarioB = [(''0'', [''CVE-1''])] \<and>
   Advisories scenarioB = [(''CVE-1'', [affectedRecord])] \<and>
   AC_Status affectedRecord = StatusAffected \<and>
   mset (statementsFromConfiguration sortByVulnerabilityAndTime scenarioB 0 scenarioPurls) =
     {#statementFromSecfixesItem ''0'' ''CVE-1'' scenarioPurls,
       statementFromAdvisoryContent affectedRecord ''CVE-1'' scenarioPurls#}"
proof -
  have sec: "Secfixes scenarioB = [(''0'', [''CVE-1''])]"
    and adv: "Advisories scenarioB = [(''CVE-1'', [affectedRecord])]"
    by (simp_all add: scenarioB_def)
  have status: "AC_Status affectedRecord = StatusAffected"
    by (simp add: affectedRecord_def)
  from scenarioB_two_statements
    [OF sortByVulnerabilityAndTime_sortsInPlace sec adv status, of 0 scenarioPurls]
  show ?thesis
    using sortByVulnerabilityAndTime_sortsInPlace sec adv status by simp
qed

text \<open>
  C4. When every configuration of the batch serialises (to \<open>yaml c\<close>) and no write to
  the hash fails, \<^verbatim>\<open>generateDocumentID\<close> returns the string \<^verbatim>\<open>vex-\<close>
  followed by the lowercase hexadecimal digest of the string obtained by serialising each
  configuration, taking the lowercase hexadecimal digest of each serialisation, sorting these
  strings lexicographically and joining them with a colon. Hexadecimal writing and joining
  are those of \<open>lowercaseHex\<close> and \<open>joinedWith\<close>, which do not refer to the code.
  For the example batch, given in unsorted order, the identifier is \<^verbatim>\<open>vex-a935\<close>.
\<close>

theorem generateDocumentID_spec:
  assumes "\<forall>c \<in> set configs. yaml_Marshal c = Inr (yaml c)"
    and "\<forall>data. sha256_Write data = None"
  shows "generateDocumentID yaml_Marshal sha256_Write sha256 configs =
           Inr (specDocumentID yaml sha256 configs)"
proof -
  have ok: "\<forall>c \<in> set configs. \<exists>data. yaml_Marshal c = Inr data \<and> sha256_Write data = None"
    using assms by simp
  have same: "map (\<lambda>c. Sprintf_x (sha256 (projr (yaml_Marshal c)))) configs =
      map (\<lambda>c. hexDigest sha256 (yaml c)) configs"
    using assms(1) by (simp add: hexDigest_def Sprintf_x_eq)
  have "generateDocumentID yaml_Marshal sha256_Write sha256 configs =
      Inr (''vex-'' @ Sprintf_x (sha256 (strings_Join
        (sort (map (\<lambda>c. hexDigest sha256 (yaml c)) configs)) '':'')))"
    by (simp add: generateDocumentID_def configHashesLoop_succeeds [OF ok] same assms(2)
        sort_Strings_def)
  then show ?thesis
    by (simp add: specDocumentID_def hexDigest_def Sprintf_x_eq strings_Join_eq)
qed

theorem generateDocumentID_spec_witness:
  "exampleMarshal scenarioA = Inr ''package: example 1.0.0'' \<and>
   exampleMarshal scenarioB = Inr ''package: sample 2.1.0'' \<and>
   (\<forall>data. exampleWrite data = None) \<and>
   generateDocumentID exampleMarshal exampleWrite exampleDigest [scenarioA, scenarioB] =
     Inr ''vex-a935''"
proof -
  have a: "exampleMarshal scenarioA = Inr ''package: example 1.0.0''"
    and b: "exampleMarshal scenarioB = Inr ''package: sample 2.1.0''"
    by (simp_all add: exampleMarshal_def scenarioA_def scenarioB_def)
  have w: "\<forall>data. exampleWrite data = None"
    by (simp add: exampleWrite_def)
  have m: "\<forall>c \<in> set [scenarioA, scenarioB].
      exampleMarshal c = Inr (''package: '' @ PackageName c @ '' '' @ PackageVersion c)"
    by (simp add: exampleMarshal_def scenarioA_def scenarioB_def)
  from generateDocumentID_spec [OF m w, of exampleDigest]
  have "generateDocumentID exampleMarshal exampleWrite exampleDigest [scenarioA, scenarioB] =
     Inr ''vex-a935''"
    by (simp only: exampleDigest_formula)
  with a b w show ?thesis
    by (intro conjI)
qed

text \<open>
  C5. Two batches that are permutations of each other give the same identifier string: the
  call fails for both or for neither, and the returned strings are equal. The serialiser and
  the hash are functions of their input, so two runs on one list agree.
\<close>

theorem generateDocumentID_permutation:
  assumes "mset configs' = mset configs"
  shows "returnedID (generateDocumentID yaml_Marshal sha256_Write sha256_Sum configs') =
           returnedID (generateDocumentID yaml_Marshal sha256_Write sha256_Sum configs) \<and>
         (isl (generateDocumentID yaml_Marshal sha256_Write sha256_Sum configs') \<longleftrightarrow>
          isl (generateDocumentID yaml_Marshal sha256_Write sha256_Sum configs))"
proof (cases "\<forall>c \<in> set configs. \<exists>data. yaml_Marshal c = Inr data \<and> sha256_Write data = None")
  case True
  have sets: "set configs' = set configs"
    using assms by (rule mset_eq_setD)
  from True sets
  have True': "\<forall>c \<in> set configs'. \<exists>data. yaml_Marshal c = Inr data \<and> sha256_Write data = None"
    by simp
  let ?h = "\<lambda>c. Sprintf_x (sha256_Sum (projr (yaml_Marshal c)))"
  have "mset (map ?h configs') = mset (map ?h configs)"
    using assms by (metis mset_map)
  then have "sort (map ?h configs') = sort (map ?h configs)"
    by (rule sort_mset_cong)
  then have "generateDocumentID yaml_Marshal sha256_Write sha256_Sum configs' =
      generateDocumentID yaml_Marshal sha256_Write sha256_Sum configs"
    by (simp add: generateDocumentID_def configHashesLoop_succeeds [OF True]
        configHashesLoop_succeeds [OF True'] sort_Strings_def)
  then show ?thesis by simp
next
  case False
  have sets: "set configs' = set configs"
    using assms by (rule mset_eq_setD)
  from False
  have f: "\<exists>c \<in> set configs. \<not> (\<exists>data. yaml_Marshal c = Inr data \<and> sha256_Write data = None)"
    by simp
  with sets
  have f': "\<exists>c \<in> set configs'. \<not> (\<exists>data. yaml_Marshal c = Inr data \<and> sha256_Write data = None)"
    by simp
  have "isl (generateDocumentID yaml_Marshal sha256_Write sha256_Sum configs)"
    using configHashesLoop_fails [OF f, of sha256_Sum "[]"]
    by (auto simp: generateDocumentID_def split: sum.splits)
  moreover have "isl (generateDocumentID yaml_Marshal sha256_Write sha256_Sum configs')"
    using configHashesLoop_fails [OF f', of sha256_Sum "[]"]
    by (auto simp: generateDocumentID_def split: sum.splits)
  ultimately show ?thesis
    by (auto simp: returnedID_def split: sum.splits)
qed

theorem generateDocumentID_permutation_witness:
  "mset [scenarioB, scenarioA] = mset [scenarioA, scenarioB] \<and>
   returnedID (generateDocumentID exampleMarshal exampleWrite exampleSum [scenarioB, scenarioA]) =
   returnedID (generateDocumentID exampleMarshal exampleWrite exampleSum [scenarioA, scenarioB]) \<and>
   \<not> isl (generateDocumentID exampleMarshal exampleWrite exampleSum [scenarioA, scenarioB])"
proof -
  have p: "mset [scenarioB, scenarioA] = mset [scenarioA, scenarioB]"
    by simp
  have ok: "\<not> isl (generateDocumentID exampleMarshal exampleWrite exampleSum [scenarioA, scenarioB])"
    by (simp add: example_ids)
  from generateDocumentID_permutation [OF p, of exampleMarshal exampleWrite exampleSum] p ok
  show ?thesis
    by (intro conjI) simp_all
qed



text \<open>
  C8. \<^verbatim>\<open>extractSBOMPurls\<close> looks only at the references of type \<^verbatim>\<open>purl\<close>.
  If the locator of one of them does not parse, the result is an error (that of the first such
  reference, wrapped) and carries no list, however many purls were collected before. If all of
  them parse, the result is the list of the parsed purls whose namespace is the configured
  distro, in the order of the references.
\<close>

theorem extractSBOMPurls_result:
  "((\<exists>ref \<in> set (purlRefs sbom). isl (purl_FromString (Locator ref))) \<longrightarrow>
      (\<exists>ref \<in> set (purlRefs sbom). \<exists>err.
          purl_FromString (Locator ref) = Inl err \<and>
          extractSBOMPurls purl_FromString vexCfg sbom =
            Inl (Wrapped (''parsing purl: '' @ Locator ref) err))) \<and>
   ((\<forall>ref \<in> set (purlRefs sbom). \<not> isl (purl_FromString (Locator ref))) \<longrightarrow>
      extractSBOMPurls purl_FromString vexCfg sbom =
        Inr (filter (\<lambda>p. Namespace p = Distro vexCfg)
               (map (\<lambda>ref. projr (purl_FromString (Locator ref))) (purlRefs sbom))))"
proof (intro conjI impI)
  assume "\<exists>ref \<in> set (purlRefs sbom). isl (purl_FromString (Locator ref))"
  then have "\<exists>ref \<in> set (sbomRefs sbom). RefType ref = ''purl'' \<and> isl (purl_FromString (Locator ref))"
    by (auto simp: purlRefs_def)
  from externalRefsLoop_fails [OF this, of vexCfg "[]"]
  show "\<exists>ref \<in> set (purlRefs sbom). \<exists>err.
          purl_FromString (Locator ref) = Inl err \<and>
          extractSBOMPurls purl_FromString vexCfg sbom =
            Inl (Wrapped (''parsing purl: '' @ Locator ref) err)"
    by (auto simp: extractSBOMPurls_def packagesLoop_flat purlRefs_def sbomRefs_def)
next
  assume "\<forall>ref \<in> set (purlRefs sbom). \<not> isl (purl_FromString (Locator ref))"
  then have "\<forall>ref \<in> set (sbomRefs sbom). RefType ref = ''purl'' \<longrightarrow> \<not> isl (purl_FromString (Locator ref))"
    by (auto simp: purlRefs_def)
  from externalRefsLoop_succeeds [OF this, of vexCfg "[]"]
  show "extractSBOMPurls purl_FromString vexCfg sbom =
        Inr (filter (\<lambda>p. Namespace p = Distro vexCfg)
               (map (\<lambda>ref. projr (purl_FromString (Locator ref))) (purlRefs sbom)))"
    by (simp add: extractSBOMPurls_def packagesLoop_flat purlRefs_def sbomRefs_def)
qed

theorem extractSBOMPurls_result_witness:
  "purlRefs exampleSBOM = [curlRef, muslRef] \<and>
   \<not> isl (exampleFromString (Locator curlRef)) \<and>
   \<not> isl (exampleFromString (Locator muslRef)) \<and>
   extractSBOMPurls exampleFromString exampleConfig exampleSBOM = Inr [curlPurl] \<and>
   purlRefs brokenSBOM = [curlRef, brokenRef] \<and>
   isl (exampleFromString (Locator brokenRef)) \<and>
   extractSBOMPurls exampleFromString exampleConfig brokenSBOM =
     Inl (Wrapped ''parsing purl: zlib-1.3'' (Error ''not a purl''))"
proof -
  note good = extractSBOMPurls_result [of exampleSBOM exampleFromString exampleConfig]
  note bad = extractSBOMPurls_result [of brokenSBOM exampleFromString exampleConfig]
  have parsed: "\<not> isl (exampleFromString (Locator curlRef))"
      "\<not> isl (exampleFromString (Locator muslRef))"
    and failed: "isl (exampleFromString (Locator brokenRef))"
    by (simp_all add: example_parses)
  from good have ok:
    "extractSBOMPurls exampleFromString exampleConfig exampleSBOM = Inr [curlPurl]"
    by (simp add: example_purlRefs example_parses curlPurl_def muslPurl_def exampleConfig_def)
  have "\<exists>ref \<in> set (purlRefs brokenSBOM). isl (exampleFromString (Locator ref))"
    using failed by (simp add: example_purlRefs)
  with bad obtain ref e where ref: "ref \<in> set (purlRefs brokenSBOM)"
    and e: "exampleFromString (Locator ref) = Inl e"
    and result: "extractSBOMPurls exampleFromString exampleConfig brokenSBOM =
       Inl (Wrapped (''parsing purl: '' @ Locator ref) e)"
    by blast
  from ref e have "ref = brokenRef"
    by (auto simp: example_purlRefs example_parses)
  with e result have err:
    "extractSBOMPurls exampleFromString exampleConfig brokenSBOM =
       Inl (Wrapped ''parsing purl: zlib-1.3'' (Error ''not a purl''))"
    by (simp add: example_parses) (simp add: brokenRef_def)
  from example_purlRefs parsed failed ok err show ?thesis
    by (intro conjI)
qed



end
